theory Spec2Isabelle
  imports Main
begin

section \<open>Data model (models/post.py, models/song.py)\<close>

text \<open>
  Python \<open>str\<close> values are modelled as \<open>string\<close>, \<open>datetime\<close> values as
  integer time stamps, Python \<open>int\<close> as \<open>int\<close>, \<open>Optional[T]\<close> as \<open>T option\<close>.
  Both models have fields called \<open>id\<close> and \<open>title\<close>; the fields of \<open>Post\<close>
  and \<open>Song\<close> therefore carry a \<open>post_\<close> respectively \<open>song_\<close> prefix where
  the names would clash.
\<close>

type_synonym datetime = int

datatype PostStatus = OPEN | SOLVED | UNSOLVED | UNKNOWN

record Post =
  post_id :: string
  subreddit :: string
  post_title :: string
  body :: string
  author :: string
  url :: string
  created_at :: datetime
  scraped_at :: datetime
  status :: PostStatus
  flair :: "string option"
  score :: int
  num_comments :: int
  audio_links :: "string list"
  description :: "string option"
  solution_comment_id :: "string option"
  solution_text :: "string option"
  identified_song_id :: "string option"

record Song =
  song_id :: string
  song_title :: string
  artist :: string
  album :: "string option"
  year :: "int option"
  spotify_url :: "string option"
  youtube_url :: "string option"
  apple_music_url :: "string option"
  discovered_at :: datetime
  source_post_ids :: "string list"
  discovery_count :: int
  original_descriptions :: "string list"

section \<open>Catalog store (storage/database.py)\<close>

text \<open>
  A \<open>PostRecord\<close> row has exactly the seventeen columns of \<open>Post\<close>;
  \<open>PostRecord.from_model\<close> and \<open>PostRecord.to_model\<close> copy them one by one
  (the status through its string value, the audio links through
  \<open>json.dumps\<close>/\<open>json.loads\<close>, both of which round-trip), so a row of the
  \<open>posts\<close> table is modelled as a \<open>Post\<close>.

  A \<open>SongRecord\<close> row has the columns of \<open>Song\<close> except \<open>source_post_ids\<close>,
  which is no column but the relationship \<open>source_posts\<close>, read back from the
  \<open>posts\<close> table by \<open>to_model\<close>. A row of the \<open>songs\<close> table is modelled
  as a \<open>Song\<close> whose \<open>source_post_ids\<close> is always \<open>[]\<close>.

  The tables are lists of rows in insertion order. SQLite does not enforce the
  foreign key of \<open>identified_song_id\<close> (no pragma switches it on), and neither
  does the model.
\<close>

record Database =
  posts :: "Post list"
  songs :: "Song list"

definition init_db :: Database where
  "init_db = \<lparr>posts = [], songs = []\<rparr>"

text \<open>\<open>session.get(PostRecord, key)\<close> and \<open>session.get(SongRecord, key)\<close>.\<close>

definition session_get_post :: "Database \<Rightarrow> string \<Rightarrow> Post option" where
  "session_get_post db key = find (\<lambda>r. post_id r = key) (posts db)"

definition session_get_song :: "Database \<Rightarrow> string \<Rightarrow> Song option" where
  "session_get_song db key = find (\<lambda>r. song_id r = key) (songs db)"

text \<open>Attribute assignment on the row that \<open>session.get\<close> returned: the first row with the key.\<close>

fun update_row :: "('r \<Rightarrow> bool) \<Rightarrow> ('r \<Rightarrow> 'r) \<Rightarrow> 'r list \<Rightarrow> 'r list" where
  "update_row P f [] = []"
| "update_row P f (r # rs) = (if P r then f r # rs else r # update_row P f rs)"

definition post_from_model :: "Post \<Rightarrow> Post" where
  "post_from_model post = post"

definition song_from_model :: "Song \<Rightarrow> Song" where
  "song_from_model song = song\<lparr>source_post_ids := []\<rparr>"

text \<open>
  \<open>save_post\<close>: for an existing row, the loop over
  \<open>PostRecord.from_model(post).__dict__.items()\<close> assigns every attribute whose
  name does not start with an underscore, which are the seventeen columns that
  the constructor received (only \<open>_sa_instance_state\<close> is skipped).
\<close>

definition save_post :: "Database \<Rightarrow> Post \<Rightarrow> Database" where
  "save_post db post =
     (case session_get_post db (post_id post) of
        Some existing \<Rightarrow>
          db\<lparr>posts := update_row (\<lambda>r. post_id r = post_id post)
                          (\<lambda>existing. post_from_model post) (posts db)\<rparr>
      | None \<Rightarrow> db\<lparr>posts := posts db @ [post_from_model post]\<rparr>)"

definition get_post :: "Database \<Rightarrow> string \<Rightarrow> Post option" where
  "get_post db key = session_get_post db key"

text \<open>
  The merge of the descriptions in \<open>save_song\<close>: each incoming string that is
  not yet in the list (which grows during the loop) is appended.
\<close>

fun merge_descriptions :: "string list \<Rightarrow> string list \<Rightarrow> string list" where
  "merge_descriptions descriptions [] = descriptions"
| "merge_descriptions descriptions (desc # rest) =
     (if desc \<notin> set descriptions then merge_descriptions (descriptions @ [desc]) rest
      else merge_descriptions descriptions rest)"

definition save_song :: "Database \<Rightarrow> Song \<Rightarrow> Post option \<Rightarrow> Database" where
  "save_song db song source_post =
     (let db1 =
        (case session_get_song db (song_id song) of
           Some existing \<Rightarrow>
             db\<lparr>songs := update_row (\<lambda>r. song_id r = song_id song)
                 (\<lambda>existing. existing
                    \<lparr>discovery_count := discovery_count existing + 1,
                     original_descriptions :=
                       merge_descriptions (original_descriptions existing)
                         (original_descriptions song)\<rparr>)
                 (songs db)\<rparr>
         | None \<Rightarrow> db\<lparr>songs := songs db @ [song_from_model song]\<rparr>)
      in case source_post of
           None \<Rightarrow> db1
         | Some sp \<Rightarrow>
             (case session_get_post db1 (post_id sp) of
                None \<Rightarrow> db1
              | Some post_record \<Rightarrow>
                  db1\<lparr>posts := update_row (\<lambda>r. post_id r = post_id sp)
                      (\<lambda>post_record. post_record\<lparr>identified_song_id := Some (song_id song)\<rparr>)
                      (posts db1)\<rparr>))"

text \<open>\<open>get_song\<close>: \<open>to_model\<close> reads \<open>source_post_ids\<close> from the relationship.\<close>

definition song_to_model :: "Database \<Rightarrow> Song \<Rightarrow> Song" where
  "song_to_model db record =
     record\<lparr>source_post_ids :=
       map post_id (filter (\<lambda>p. identified_song_id p = Some (song_id record)) (posts db))\<rparr>"

definition get_song :: "Database \<Rightarrow> string \<Rightarrow> Song option" where
  "get_song db key = map_option (song_to_model db) (session_get_song db key)"

section \<open>Sequences of store operations\<close>

text \<open>
  The store is written through \<open>save_post\<close> and \<open>save_song\<close> only. A state is
  reachable when a list of these operations, run from the empty store that
  \<open>init_db\<close> creates, ends in it.
\<close>

datatype store_op = SavePost Post | SaveSong Song "Post option"

fun apply_op :: "Database \<Rightarrow> store_op \<Rightarrow> Database" where
  "apply_op db (SavePost post) = save_post db post"
| "apply_op db (SaveSong song source_post) = save_song db song source_post"

definition run_ops :: "Database \<Rightarrow> store_op list \<Rightarrow> Database" where
  "run_ops db ops = foldl apply_op db ops"

text \<open>The number of requests whose \<open>identified_song_id\<close> is the given song id.\<close>

definition linked_requests :: "Database \<Rightarrow> string \<Rightarrow> nat" where
  "linked_requests db sid = length (filter (\<lambda>p. identified_song_id p = Some sid) (posts db))"

definition count_matches_links :: "Database \<Rightarrow> bool" where
  "count_matches_links db =
     list_all (\<lambda>s. discovery_count s = int (linked_requests db (song_id s))) (songs db)"

text \<open>
  The operations in the form the resolution pass of \<open>process_solved_posts\<close>
  issues them on requests it has not linked yet: a \<open>save_post\<close> that leaves the
  stored link as it is (a new post carries none), and a \<open>save_song\<close> of a song
  with the default \<open>discovery_count\<close> of 1 whose source post is in the store and
  has no \<open>identified_song_id\<close>.
\<close>

fun resolution_op :: "Database \<Rightarrow> store_op \<Rightarrow> bool" where
  "resolution_op db (SavePost post) =
     (identified_song_id post =
        (case session_get_post db (post_id post) of
           None \<Rightarrow> None | Some existing \<Rightarrow> identified_song_id existing))"
| "resolution_op db (SaveSong song source_post) =
     (discovery_count song = 1 \<and>
      (case source_post of
         None \<Rightarrow> False
       | Some sp \<Rightarrow>
           (case session_get_post db (post_id sp) of
              None \<Rightarrow> False | Some existing \<Rightarrow> identified_song_id existing = None)))"

fun resolution_run :: "Database \<Rightarrow> store_op list \<Rightarrow> bool" where
  "resolution_run db [] = True"
| "resolution_run db (op # ops) = (resolution_op db op \<and> resolution_run (apply_op db op) ops)"

text \<open>
  The invariant behind the count: song ids are unique, every link points to a
  stored song, and every count equals the number of links.
\<close>

definition links_resolve :: "Database \<Rightarrow> bool" where
  "links_resolve db =
     (\<forall>p\<in>set (posts db). set_option (identified_song_id p) \<subseteq> song_id ` set (songs db))"

definition store_inv :: "Database \<Rightarrow> bool" where
  "store_inv db = (distinct (map song_id (songs db)) \<and> links_resolve db \<and> count_matches_links db)"

section \<open>Python string operations\<close>

text \<open>
  The characters of the model are ASCII code points: \<open>lower\<close>, \<open>isalnum\<close> and
  \<open>isspace\<close> are Python's on code points below 128, and a character from 128
  on is left alone by \<open>lower\<close> and is neither alphanumeric nor white space.
\<close>

definition ascii_uppercase :: string where
  "ascii_uppercase = ''ABCDEFGHIJKLMNOPQRSTUVWXYZ''"

definition ascii_lowercase :: string where
  "ascii_lowercase = ''abcdefghijklmnopqrstuvwxyz''"

definition ascii_digits :: string where
  "ascii_digits = ''0123456789''"

definition lower_char :: "char \<Rightarrow> char" where
  "lower_char c =
     (case map_of (zip ascii_uppercase ascii_lowercase) c of Some l \<Rightarrow> l | None \<Rightarrow> c)"

definition lower :: "string \<Rightarrow> string" where
  "lower s = map lower_char s"

definition isdigit :: "char \<Rightarrow> bool" where
  "isdigit c = (c \<in> set ascii_digits)"

definition isalnum :: "char \<Rightarrow> bool" where
  "isalnum c = (c \<in> set (ascii_digits @ ascii_uppercase @ ascii_lowercase))"

text \<open>
  White space: tab, line feed, vertical tab, form feed, carriage return, the
  four separators \<open>0x1c\<close> to \<open>0x1f\<close>, and the space.
\<close>

definition isspace :: "char \<Rightarrow> bool" where
  "isspace c =
     (c \<in> set [CHR 0x09, CHR 0x0A, CHR 0x0B, CHR 0x0C, CHR 0x0D,
                CHR 0x1C, CHR 0x1D, CHR 0x1E, CHR 0x1F, CHR '' ''])"

text \<open>\<open>s.startswith(p)\<close>, and \<open>sub in s\<close> for strings.\<close>

fun startswith :: "string \<Rightarrow> string \<Rightarrow> bool" where
  "startswith s [] = True"
| "startswith [] (p # ps) = False"
| "startswith (c # cs) (p # ps) = (c = p \<and> startswith cs ps)"

fun contains :: "string \<Rightarrow> string \<Rightarrow> bool" where
  "contains sub [] = (sub = [])"
| "contains sub (c # cs) = (startswith (c # cs) sub \<or> contains sub cs)"

text \<open>
  \<open>s.split(sep)\<close> for a separator that is not empty (Python raises
  \<open>ValueError\<close> on an empty one; the callers pass literals). The second
  argument of \<open>split_from\<close> is the piece read so far.
\<close>

fun split_from :: "string \<Rightarrow> string \<Rightarrow> nat \<Rightarrow> string \<Rightarrow> string list" where
  "split_from sep cur skip [] = [cur]"
| "split_from sep cur (Suc k) (c # cs) = split_from sep cur k cs"
| "split_from sep cur 0 (c # cs) =
     (if sep \<noteq> [] \<and> startswith (c # cs) sep
      then cur # split_from sep [] (length sep - 1) cs
      else split_from sep (cur @ [c]) 0 cs)"

definition split :: "string \<Rightarrow> string \<Rightarrow> string list" where
  "split s sep = split_from sep [] 0 s"

text \<open>\<open>s.strip()\<close>.\<close>

definition strip :: "string \<Rightarrow> string" where
  "strip s = rev (dropWhile isspace (rev (dropWhile isspace s)))"

text \<open>
  \<open>str(n)\<close> for an integer, as an f-string formats it: decimal digits, with a
  minus sign for a negative number.
\<close>

function digits_of :: "nat \<Rightarrow> string" where
  "digits_of n =
     (if n < 10 then [ascii_digits ! n]
      else digits_of (n div 10) @ [ascii_digits ! (n mod 10)])"
  by pat_completeness auto
termination
  by (relation "measure (\<lambda>n. n)") auto

definition str_of_int :: "int \<Rightarrow> string" where
  "str_of_int i = (if i < 0 then CHR ''-'' # digits_of (nat (- i)) else digits_of (nat i))"

section \<open>Regular expressions (the part of \<open>re\<close> that the scraper uses)\<close>

text \<open>
  The patterns of the scraper are built from literal characters, character
  classes, optional groups, alternatives and greedy repetition. \<open>match_ends\<close>
  lists the rests of the text after each way the pattern matches at its start,
  in the order in which the backtracking matcher of \<open>re\<close> tries them (a greedy
  repetition tries one more round first, an optional group tries the group
  first, an alternative tries its left side first), so the head of the list
  is the match that \<open>re\<close> reports.
\<close>

datatype regex =
    Eps
  | Atom "char \<Rightarrow> bool"
  | Seq regex regex
  | Alt regex regex
  | Opt regex
  | Star regex

fun match_ends :: "regex \<Rightarrow> string \<Rightarrow> string list" where
  "match_ends Eps s = [s]"
| "match_ends (Atom P) [] = []"
| "match_ends (Atom P) (c # cs) = (if P c then [cs] else [])"
| "match_ends (Seq a b) s = concat (map (\<lambda>rest. match_ends b rest) (match_ends a s))"
| "match_ends (Alt a b) s = match_ends a s @ match_ends b s"
| "match_ends (Opt a) s = match_ends a s @ [s]"
| "match_ends (Star a) s =
     concat (map (\<lambda>rest. if length rest < length s then match_ends (Star a) rest else [])
               (match_ends a s)) @ [s]"

text \<open>\<open>pattern.search(s)\<close> finds a match: the pattern matches at some position.\<close>

fun search :: "regex \<Rightarrow> string \<Rightarrow> bool" where
  "search r [] = (match_ends r [] \<noteq> [])"
| "search r (c # cs) = (match_ends r (c # cs) \<noteq> [] \<or> search r cs)"

text \<open>
  \<open>pattern.findall(s)\<close> for a pattern whose one group is the whole pattern:
  the matches from left to right, each search resuming where the last match
  ended. Every pattern of the scraper starts with the literal \<open>http\<close>, so a
  match is never empty; the branch for an empty match steps over one character.
\<close>

fun findall :: "regex \<Rightarrow> string \<Rightarrow> string list" where
  "findall r s =
     (case match_ends r s of
        [] \<Rightarrow> (case s of [] \<Rightarrow> [] | c # cs \<Rightarrow> findall r cs)
      | rest # others \<Rightarrow>
          if length rest < length s
          then take (length s - length rest) s # findall r rest
          else [] # (case s of [] \<Rightarrow> [] | c # cs \<Rightarrow> findall r cs))"

declare findall.simps [simp del]

text \<open>Pattern syntax, under \<open>re.IGNORECASE\<close>.\<close>

definition ichar :: "char \<Rightarrow> regex" where
  "ichar c = Atom (\<lambda>x. lower_char x = lower_char c)"

definition lit :: "string \<Rightarrow> regex" where
  "lit s = foldr (\<lambda>c r. Seq (ichar c) r) s Eps"

definition seqs :: "regex list \<Rightarrow> regex" where
  "seqs rs = foldr Seq rs Eps"

definition one_or_more :: "regex \<Rightarrow> regex" where
  "one_or_more r = Seq r (Star r)"

text \<open>\<open>\s\<close>, \<open>\d\<close>, \<open>[\w-]\<close> and \<open>[\w.-]\<close>.\<close>

definition word_char :: "char \<Rightarrow> bool" where
  "word_char c = (isalnum c \<or> c = CHR ''_'')"

definition word_dash :: regex where
  "word_dash = Atom (\<lambda>c. word_char c \<or> c = CHR ''-'')"

definition word_dot_dash :: regex where
  "word_dot_dash = Atom (\<lambda>c. word_char c \<or> c = CHR ''.'' \<or> c = CHR ''-'')"

definition https :: regex where
  "https = Seq (lit ''http'') (Seq (Opt (lit ''s'')) (lit ''://''))"

definition www :: regex where
  "www = Opt (lit ''www.'')"

section \<open>Classifier and fetcher (scrapers/reddit.py)\<close>

text \<open>
  A raw thread as PRAW hands it over, with the attributes that the scraper
  reads. \<open>display_name\<close> is \<open>submission.subreddit.display_name\<close>; an absent
  flair, self text or author is \<open>None\<close>; \<open>created_utc\<close> is in whole seconds.
\<close>

record Submission =
  submission_id :: string
  display_name :: string
  title :: string
  selftext :: "string option"
  submission_author :: "string option"
  permalink :: string
  created_utc :: int
  link_flair_text :: "string option"
  submission_score :: int
  submission_num_comments :: int

definition DEFAULT_SUBREDDITS :: "string list" where
  "DEFAULT_SUBREDDITS = [''tipofmytongue'', ''WhatsThisSong'', ''NameThatSong'']"

definition MUSIC_FLAIR_PATTERNS :: "regex list" where
  "MUSIC_FLAIR_PATTERNS =
     [seqs [lit ''[TOMT]'', Star (Atom isspace), lit ''['',
            Alt (lit ''song'') (Alt (lit ''music'') (Alt (lit ''band'') (lit ''artist'')))],
      lit ''[song]'',
      lit ''[music]'']"

definition AUDIO_LINK_PATTERNS :: "regex list" where
  "AUDIO_LINK_PATTERNS =
     [seqs [https, www, lit ''youtube.com/watch?v='', one_or_more word_dash],
      seqs [https, www, lit ''youtu.be/'', one_or_more word_dash],
      seqs [https, www, lit ''soundcloud.com/'', one_or_more word_dash, lit ''/'', one_or_more word_dash],
      seqs [https, www, lit ''vocaroo.com/'', one_or_more word_dash],
      seqs [https, lit ''voca.ro/'', one_or_more word_dash],
      seqs [https, www, lit ''clyp.it/'', one_or_more word_dash],
      seqs [https, www, lit ''onlinesequencer.net/'', one_or_more word_dash],
      seqs [https, www, lit ''spotify.com/track/'', one_or_more word_dash],
      seqs [https, lit ''open.spotify.com/track/'', one_or_more word_dash],
      seqs [https, www, lit ''tiktok.com/@'', one_or_more word_dot_dash, lit ''/video/'',
            one_or_more (Atom isdigit)],
      seqs [https, www, lit ''reddit.com/link/'', one_or_more word_dash, lit ''/video/'',
            one_or_more word_dash],
      seqs [https, lit ''v.redd.it/'', one_or_more word_dash],
      seqs [https, lit ''streamable.com/'', one_or_more word_dash]]"

text \<open>\<open>submission.link_flair_text or ""\<close>, and the like.\<close>

definition or_empty :: "string option \<Rightarrow> string" where
  "or_empty x = (case x of None \<Rightarrow> [] | Some s \<Rightarrow> s)"

definition is_music_post :: "Submission \<Rightarrow> bool" where
  "is_music_post submission =
     (let subreddit_name = lower (display_name submission) in
      if subreddit_name \<in> set [''whatsthissong'', ''namethatsong''] then True
      else if subreddit_name = ''tipofmytongue'' then
        (let flair = lower (or_empty (link_flair_text submission)) in
         if list_ex (\<lambda>term. contains term flair) [''song'', ''music''] then True
         else if list_ex (\<lambda>pattern. search pattern (title submission)) MUSIC_FLAIR_PATTERNS
         then True
         else False)
      else True)"

text \<open>
  \<open>list(set(links))\<close>: the links without duplicates, in the iteration order
  of a Python set of strings. That order is fixed by the string hashes of the
  running interpreter, so it is a parameter \<open>list_of_set\<close> of the model.
  \<open>set_order\<close> says what every interpreter guarantees of it.
\<close>

definition set_order :: "(string list \<Rightarrow> string list) \<Rightarrow> bool" where
  "set_order list_of_set = (\<forall>xs. distinct (list_of_set xs) \<and> set (list_of_set xs) = set xs)"

definition extract_audio_links :: "(string list \<Rightarrow> string list) \<Rightarrow> string \<Rightarrow> string list" where
  "extract_audio_links list_of_set text =
     list_of_set (concat (map (\<lambda>pattern. findall pattern text) AUDIO_LINK_PATTERNS))"

definition determine_status :: "Submission \<Rightarrow> PostStatus" where
  "determine_status submission =
     (let flair = lower (or_empty (link_flair_text submission)) in
      if contains ''solved'' flair \<or> contains ''answered'' flair then SOLVED
      else if contains ''open'' flair \<or> contains ''searching'' flair then OPEN
      else if contains ''unsolved'' flair \<or> contains ''closed'' flair then UNSOLVED
      else UNKNOWN)"

text \<open>
  \<open>_submission_to_post\<close>. \<open>now\<close> is the value of \<open>datetime.utcnow()\<close> when
  the \<open>Post\<close> is built (the default of \<open>scraped_at\<close>); the other defaults of
  the model are written out.
\<close>

definition submission_to_post ::
    "(string list \<Rightarrow> string list) \<Rightarrow> datetime \<Rightarrow> Submission \<Rightarrow> Post" where
  "submission_to_post list_of_set now submission =
     (let body = or_empty (selftext submission);
          audio_links = extract_audio_links list_of_set (title submission @ '' '' @ body)
      in \<lparr>post_id = submission_id submission,
          subreddit = display_name submission,
          post_title = title submission,
          body = body,
          author = (case submission_author submission of
                      Some name \<Rightarrow> name | None \<Rightarrow> ''[deleted]''),
          url = ''https://reddit.com'' @ permalink submission,
          created_at = created_utc submission,
          scraped_at = now,
          status = determine_status submission,
          flair = link_flair_text submission,
          score = submission_score submission,
          num_comments = submission_num_comments submission,
          audio_links = audio_links,
          description = None,
          solution_comment_id = None,
          solution_text = None,
          identified_song_id = None\<rparr>)"

text \<open>
  The thread source: the listings of PRAW, each from a subreddit name and a
  limit (and a query, for the search) to the submissions it returns. The
  generators of the scraper become lists; \<open>clock i\<close> is the time at which
  the \<open>i\<close>-th post of a run is built.
\<close>

record Reddit =
  listing_new :: "string \<Rightarrow> int \<Rightarrow> Submission list"
  listing_hot :: "string \<Rightarrow> int \<Rightarrow> Submission list"
  listing_search :: "string \<Rightarrow> string \<Rightarrow> int \<Rightarrow> Submission list"

definition yield_posts ::
    "(string list \<Rightarrow> string list) \<Rightarrow> (nat \<Rightarrow> datetime) \<Rightarrow> Submission list \<Rightarrow> Post list" where
  "yield_posts list_of_set clock submissions =
     map (\<lambda>(i, submission). submission_to_post list_of_set (clock i) submission)
       (enumerate 0 (filter is_music_post submissions))"

definition scrape_new ::
    "(string list \<Rightarrow> string list) \<Rightarrow> (nat \<Rightarrow> datetime) \<Rightarrow> Reddit \<Rightarrow> string list \<Rightarrow> int
       \<Rightarrow> Post list" where
  "scrape_new list_of_set clock reddit subreddits limit =
     yield_posts list_of_set clock
       (concat (map (\<lambda>subreddit_name. listing_new reddit subreddit_name limit) subreddits))"

definition scrape_hot ::
    "(string list \<Rightarrow> string list) \<Rightarrow> (nat \<Rightarrow> datetime) \<Rightarrow> Reddit \<Rightarrow> string list \<Rightarrow> int
       \<Rightarrow> Post list" where
  "scrape_hot list_of_set clock reddit subreddits limit =
     yield_posts list_of_set clock
       (concat (map (\<lambda>subreddit_name. listing_hot reddit subreddit_name limit) subreddits))"

definition scrape_solved ::
    "(string list \<Rightarrow> string list) \<Rightarrow> (nat \<Rightarrow> datetime) \<Rightarrow> Reddit \<Rightarrow> string list \<Rightarrow> int
       \<Rightarrow> Post list" where
  "scrape_solved list_of_set clock reddit subreddits limit =
     map (\<lambda>post. post\<lparr>status := SOLVED\<rparr>)
       (yield_posts list_of_set clock
          (concat (map (\<lambda>subreddit_name.
             listing_search reddit subreddit_name ''flair:solved OR flair:answered'' limit)
             subreddits)))"


section \<open>Extractor (services/parser.py)\<close>

text \<open>
  The values that \<open>json.loads\<close> returns. A \<open>JObj\<close> is a Python dict, given by
  its items, every key once. Numbers with a fraction or an exponent (Python
  floats) are not represented.
\<close>

datatype json =
    JNull
  | JBool bool
  | JInt int
  | JStr string
  | JArr "json list"
  | JObj "(string \<times> json) list"

text \<open>The truth value of a Python object in a condition, \<open>None\<close> for an absent key.\<close>

fun truthy :: "json option \<Rightarrow> bool" where
  "truthy None = False"
| "truthy (Some JNull) = False"
| "truthy (Some (JBool b)) = b"
| "truthy (Some (JInt n)) = (n \<noteq> 0)"
| "truthy (Some (JStr s)) = (s \<noteq> [])"
| "truthy (Some (JArr xs)) = (xs \<noteq> [])"
| "truthy (Some (JObj items)) = (items \<noteq> [])"

text \<open>
  The exceptions that leave a function of the model; those that the code
  catches become results.
\<close>

datatype exn = AttributeError | IndexError | ValidationError | ValueError

text \<open>\<open>xs[i]\<close> for an index that is not negative.\<close>

definition index :: "'a list \<Rightarrow> nat \<Rightarrow> exn + 'a" where
  "index xs i = (if i < length xs then Inr (xs ! i) else Inl IndexError)"

text \<open>\<open>sep.join(pieces)\<close>.\<close>

fun join :: "string \<Rightarrow> string list \<Rightarrow> string" where
  "join sep [] = []"
| "join sep [piece] = piece"
| "join sep (piece # pieces) = piece @ sep @ join sep pieces"

definition join_lines :: "string list \<Rightarrow> string" where
  "join_lines pieces = join [CHR 0x0A] pieces"


definition EXTRACT_SOLUTION_PROMPT :: "string \<Rightarrow> string \<Rightarrow> string \<Rightarrow> string" where
  \<open>EXTRACT_SOLUTION_PROMPT title_text body_text comments_text =
     join_lines
     [''You are analyzing comments on a "tip of my tongue" post that has been marked as SOLVED.'',
      '''',
      ''The original poster was looking for a song. Find the comment that correctly identified the song.'',
      '''',
      ''Post Title: '' @ title_text,
      ''Post Body: '' @ body_text,
      '''',
      ''Comments:'',
      comments_text,
      '''',
      ''If you can identify the solution, respond with a JSON object:'',
      ''{'',
      ''    "found": true,'',
      ''    "song_title": "Title of the song",'',
      ''    "artist": "Artist name",'',
      ''    "album": "Album name if mentioned, or null",'',
      ''    "year": year as integer if mentioned, or null,'',
      ''    "comment_id": "ID of the comment with the answer",'',
      ''    "confidence": "high/medium/low"'',
      ''}'',
      '''',
      ''If you cannot find a clear solution, respond with:'',
      ''{'',
      ''    "found": false,'',
      ''    "reason": "Brief explanation why"'',
      ''}'']\<close>

text \<open>
  The external capabilities of the extractor: the completion call
  \<open>client.messages.create(...)\<close>, from the prompt to the text of the first
  content block of the reply; \<open>json.loads\<close>, with \<open>None\<close> for a
  \<open>JSONDecodeError\<close>; and the validation of pydantic for a field of type
  \<open>int\<close>, with \<open>None\<close> for a \<open>ValidationError\<close>.
\<close>

record Capabilities =
  messages_create :: "string \<Rightarrow> string"
  json_loads :: "string \<Rightarrow> json option"
  validate_int :: "json \<Rightarrow> int option"

text \<open>
  The handling of a markdown code block, at the head of both \<open>try\<close> blocks.
  An \<open>IndexError\<close> would not be caught by either \<open>except\<close> clause.
\<close>

definition strip_code_fence :: "string \<Rightarrow> exn + string" where
  "strip_code_fence response_text =
     (if contains ''```json'' response_text then
        (case index (split response_text ''```json'') 1 of
           Inl e \<Rightarrow> Inl e
         | Inr inner \<Rightarrow> index (split inner ''```'') 0)
      else if contains ''```'' response_text then
        (case index (split response_text ''```'') 1 of
           Inl e \<Rightarrow> Inl e
         | Inr inner \<Rightarrow> index (split inner ''```'') 0)
      else Inr response_text)"


text \<open>A comment dict, with the keys that \<open>get_post_with_comments\<close> sets.\<close>

record Comment =
  comment_id :: string
  comment_author :: string
  comment_body :: string
  comment_score :: int
  comment_created_at :: datetime
  is_submitter :: bool
  is_op_reply :: bool

definition format_comment :: "Comment \<Rightarrow> string" where
  "format_comment c =
     ''[Comment ID: '' @ comment_id c @ ''] (score: '' @ str_of_int (comment_score c)
       @ '', by: '' @ comment_author c @ '')'' @ [CHR 0x0A] @ comment_body c"

text \<open>
  The two lines that build the song id: the f-string of artist and title,
  lower-cased, then every character that is not alphanumeric replaced.
\<close>

definition make_song_id :: "string \<Rightarrow> string \<Rightarrow> string" where
  "make_song_id artist_name title_text =
     (let song_id = lower (artist_name @ ''_'' @ title_text)
      in map (\<lambda>c. if isalnum c then c else CHR ''_'') song_id)"

text \<open>
  \<open>Song(...)\<close> on the values of the decoded dict. The model validates its
  fields: \<open>title\<close> and \<open>artist\<close> must be strings, \<open>album\<close> a string or
  \<open>None\<close>, \<open>year\<close> an integer (as \<open>validate_int\<close> decides) or \<open>None\<close>.
  The f-string before it formats any value and cannot fail, so the id is
  computed on the strings once the validation has passed.
\<close>

definition validate_optional_str :: "json option \<Rightarrow> exn + string option" where
  "validate_optional_str v =
     (case v of
        None \<Rightarrow> Inr None
      | Some JNull \<Rightarrow> Inr None
      | Some (JStr s) \<Rightarrow> Inr (Some s)
      | Some other \<Rightarrow> Inl ValidationError)"

definition validate_optional_int :: "Capabilities \<Rightarrow> json option \<Rightarrow> exn + int option" where
  "validate_optional_int env v =
     (case v of
        None \<Rightarrow> Inr None
      | Some JNull \<Rightarrow> Inr None
      | Some other \<Rightarrow>
          (case validate_int env other of
             Some n \<Rightarrow> Inr (Some n)
           | None \<Rightarrow> Inl ValidationError))"

definition build_song ::
    "Capabilities \<Rightarrow> datetime \<Rightarrow> Post \<Rightarrow> json \<Rightarrow> json \<Rightarrow> json option \<Rightarrow> json option
       \<Rightarrow> exn + Song" where
  "build_song env now post artist_value title_value album_value year_value =
     (case (artist_value, title_value) of
        (JStr artist_name, JStr title_text) \<Rightarrow>
          (case validate_optional_str album_value of
             Inl e \<Rightarrow> Inl e
           | Inr album_name \<Rightarrow>
               (case validate_optional_int env year_value of
                  Inl e \<Rightarrow> Inl e
                | Inr release_year \<Rightarrow>
                    Inr \<lparr>song_id = make_song_id artist_name title_text,
                         song_title = title_text,
                         artist = artist_name,
                         album = album_name,
                         year = release_year,
                         spotify_url = None,
                         youtube_url = None,
                         apple_music_url = None,
                         discovered_at = now,
                         source_post_ids = [post_id post],
                         discovery_count = 1,
                         original_descriptions = []\<rparr>))
      | other \<Rightarrow> Inl ValidationError)"

text \<open>
  The \<open>try\<close> block of \<open>extract_solution\<close> on the response text. A
  \<open>JSONDecodeError\<close> and the \<open>KeyError\<close> of a missing \<open>artist\<close> or
  \<open>song_title\<close> are caught and give \<open>None\<close>; \<open>result.get\<close> on a value
  that is no dict raises \<open>AttributeError\<close>, which is not caught.
\<close>

definition parse_solution :: "Capabilities \<Rightarrow> datetime \<Rightarrow> Post \<Rightarrow> string \<Rightarrow> exn + Song option" where
  "parse_solution env now post response_text =
     (case strip_code_fence response_text of
        Inl e \<Rightarrow> Inl e
      | Inr text \<Rightarrow>
          (case json_loads env (strip text) of
             None \<Rightarrow> Inr None
           | Some (JObj result) \<Rightarrow>
               if truthy (map_of result ''found'') then
                 (case map_of result ''artist'' of
                    None \<Rightarrow> Inr None
                  | Some artist_value \<Rightarrow>
                      (case map_of result ''song_title'' of
                         None \<Rightarrow> Inr None
                       | Some title_value \<Rightarrow>
                           (case build_song env now post artist_value title_value
                                   (map_of result ''album'') (map_of result ''year'') of
                              Inl e \<Rightarrow> Inl e
                            | Inr song \<Rightarrow> Inr (Some song))))
               else Inr None
           | Some other \<Rightarrow> Inl AttributeError))"

text \<open>
  \<open>extract_solution\<close> returns its outcome together with the prompts it sent
  to the completion call, in order: none when the comment list is empty.
\<close>

definition extract_solution ::
    "Capabilities \<Rightarrow> datetime \<Rightarrow> Post \<Rightarrow> Comment list \<Rightarrow> (exn + Song option) \<times> string list" where
  "extract_solution env now post comments =
     (if comments = [] then (Inr None, [])
      else
        (let comments_text = join [CHR 0x0A, CHR 0x0A] (map format_comment (take 50 comments));
             prompt = EXTRACT_SOLUTION_PROMPT (post_title post) (body post) comments_text;
             response_text = messages_create env prompt
         in (parse_solution env now post response_text, [prompt])))"


section \<open>Orchestrator (services/discovery.py)\<close>



section \<open>Example data\<close>

text \<open>The thread and the song of the scenario in the specification.\<close>

definition thread_t1 :: Post where
  "thread_t1 = \<lparr>post_id = ''t1'', subreddit = ''WhatsThisSong'', post_title = ''80s synth song'',
     body = [], author = ''someone'', url = ''https://reddit.com/r/WhatsThisSong/t1'',
     created_at = 1000, scraped_at = 2000, status = SOLVED, flair = Some ''Solved'', score = 3,
     num_comments = 1, audio_links = [], description = Some ''an 80s synth song'',
     solution_comment_id = None, solution_text = None, identified_song_id = None\<rparr>"

definition blue_monday :: Song where
  "blue_monday = \<lparr>song_id = ''new_order_blue_monday'', song_title = ''Blue Monday'',
     artist = ''New Order'', album = None, year = None, spotify_url = None, youtube_url = None,
     apple_music_url = None, discovered_at = 3000, source_post_ids = [''t1''],
     discovery_count = 1, original_descriptions = [''an 80s synth song'']\<rparr>"

definition comment_c1 :: Comment where
  "comment_c1 = \<lparr>comment_id = ''c1'', comment_author = ''helper'',
     comment_body = ''It is Blue Monday by New Order'', comment_score = 12,
     comment_created_at = 1500, is_submitter = False, is_op_reply = True\<rparr>"

text \<open>Raw threads: two of the general group, two of the dedicated groups.\<close>

definition tomt_song :: Submission where
  "tomt_song = \<lparr>submission_id = ''a1'', display_name = ''tipofmytongue'',
     title = ''tune from a car advert'', selftext = Some ''It goes da da dum'',
     submission_author = Some ''asker'', permalink = ''/r/tipofmytongue/comments/a1/'',
     created_utc = 1700000000, link_flair_text = Some ''[TOMT][Song]'',
     submission_score = 5, submission_num_comments = 2\<rparr>"

definition tomt_movie :: Submission where
  "tomt_movie = tomt_song\<lparr>submission_id := ''a2'', title := ''film about a heist'',
     link_flair_text := Some ''[TOMT][Movie]''\<rparr>"

definition untagged_thread :: Submission where
  "untagged_thread = \<lparr>submission_id = ''b1'', display_name = ''WhatsThisSong'',
     title = ''piano piece'', selftext = None,
     submission_author = None, permalink = ''/r/WhatsThisSong/comments/b1/'',
     created_utc = 1700000500, link_flair_text = None,
     submission_score = 1, submission_num_comments = 0\<rparr>"

definition solved_and_open :: Submission where
  "solved_and_open = untagged_thread\<lparr>submission_id := ''b2'',
     link_flair_text := Some ''Solved (was Open)''\<rparr>"

definition two_links :: Submission where
  "two_links = \<lparr>submission_id = ''c3'', display_name = ''NameThatSong'',
     title = ''hummed it'', selftext = Some ''https://youtu.be/a https://voca.ro/b'',
     submission_author = Some ''asker'', permalink = ''/r/NameThatSong/comments/c3/'',
     created_utc = 1700000900, link_flair_text = None,
     submission_score = 2, submission_num_comments = 0\<rparr>"

text \<open>
  A thread source whose new listing of the general group holds the two
  threads above, and whose search of \<open>WhatsThisSong\<close> returns a thread
  without a flair.
\<close>

definition example_reddit :: Reddit where
  "example_reddit =
     \<lparr>listing_new = (\<lambda>name limit. if name = ''tipofmytongue'' then [tomt_movie, tomt_song] else []),
      listing_hot = (\<lambda>name limit. []),
      listing_search = (\<lambda>name query limit.
        if name = ''WhatsThisSong'' then [untagged_thread] else [])\<rparr>"

text \<open>
  \<open>json.loads\<close> on the texts that the examples decode, the integer
  validation on integers, and three completions: one answers with the JSON
  text \<open>[]\<close>, one with a fenced object that names the song, one with prose.
\<close>

definition example_loads :: "string \<Rightarrow> json option" where
  \<open>example_loads response =
     (if response = ''[]'' then Some (JArr [])
      else if response = ''{"found": true, "song_title": "Blue Monday", "artist": "New Order"}''
      then Some (JObj [(''found'', JBool True), (''song_title'', JStr ''Blue Monday''),
                       (''artist'', JStr ''New Order'')])
      else None)\<close>

definition example_validate_int :: "json \<Rightarrow> int option" where
  "example_validate_int v = (case v of JInt n \<Rightarrow> Some n | other \<Rightarrow> None)"

definition array_reply :: Capabilities where
  "array_reply = \<lparr>messages_create = (\<lambda>prompt. ''[]''), json_loads = example_loads,
     validate_int = example_validate_int\<rparr>"



section \<open>Lemmas about the tables\<close>

lemma find_update_row_same:
  "(\<And>r. P r \<Longrightarrow> P (f r)) \<Longrightarrow> find P (update_row P f rs) = map_option f (find P rs)"
  by (induction rs) auto

lemma find_update_row_other:
  "(\<And>r. P r \<Longrightarrow> \<not> Q r \<and> \<not> Q (f r)) \<Longrightarrow> find Q (update_row P f rs) = find Q rs"
  by (induction rs) auto

lemma find_app:
  "find P (xs @ ys) = (case find P xs of None \<Rightarrow> find P ys | Some x \<Rightarrow> Some x)"
  by (induction xs) auto

lemma find_None_filter: "find P rs = None \<longleftrightarrow> filter P rs = []"
  by (induction rs) auto

lemma length_update_row [simp]: "length (update_row P f rs) = length rs"
  by (induction rs) auto

lemma filter_update_row_count:
  "find P rs = Some e \<Longrightarrow>
   length (filter Q (update_row P f rs)) + (if Q e then 1 else 0)
     = length (filter Q rs) + (if Q (f e) then 1 else 0)"
  by (induction rs) (auto split: if_splits)

lemma update_row_None: "find P rs = None \<Longrightarrow> update_row P f rs = rs"
  by (induction rs) (auto split: if_splits)

lemma update_row_distinct_key:
  "distinct (map key rs) \<Longrightarrow>
   update_row (\<lambda>r. key r = k) f rs = map (\<lambda>r. if key r = k then f r else r) rs"
proof (induction rs)
  case Nil
  then show ?case by simp
next
  case (Cons r rs)
  show ?case
  proof (cases "key r = k")
    case True
    from Cons.prems have "key r \<notin> set (map key rs)" by simp
    with True have "\<forall>x\<in>set rs. key x \<noteq> k" by (auto simp: image_iff)
    then have "map (\<lambda>r. if key r = k then f r else r) rs = rs"
      by (induction rs) auto
    with True show ?thesis by simp
  next
    case False
    with Cons show ?thesis by simp
  qed
qed

lemma set_update_row:
  "find P rs = Some e \<Longrightarrow> set (update_row P f rs) \<subseteq> insert (f e) (set rs)"
  by (induction rs) (auto split: if_splits)

lemma find_Some_mem: "find P rs = Some e \<Longrightarrow> e \<in> set rs \<and> P e"
  by (induction rs) (auto split: if_splits)


lemma linked_after_link:
  assumes "find (\<lambda>r. post_id r = k) ps = Some e" and "identified_song_id e = None"
  shows "length (filter (\<lambda>p. identified_song_id p = Some x)
            (update_row (\<lambda>r. post_id r = k) (\<lambda>r. r\<lparr>identified_song_id := Some sid\<rparr>) ps))
         = length (filter (\<lambda>p. identified_song_id p = Some x) ps) + (if x = sid then 1 else 0)"
  using filter_update_row_count [OF assms(1),
      of "\<lambda>p. identified_song_id p = Some x" "\<lambda>r. r\<lparr>identified_song_id := Some sid\<rparr>"] assms(2)
  by (simp split: if_splits)

lemma linked_after_overwrite:
  assumes "find (\<lambda>r. post_id r = k) ps = Some e"
      and "identified_song_id post = identified_song_id e"
  shows "length (filter (\<lambda>p. identified_song_id p = Some x)
            (update_row (\<lambda>r. post_id r = k) (\<lambda>r. post) ps))
         = length (filter (\<lambda>p. identified_song_id p = Some x) ps)"
  using filter_update_row_count [OF assms(1),
      of "\<lambda>p. identified_song_id p = Some x" "\<lambda>r. post"] assms(2)
  by (simp split: if_splits)

lemma unresolved_link_count:
  assumes "links_resolve db" and "sid \<notin> song_id ` set (songs db)"
  shows "linked_requests db sid = 0"
proof -
  have "\<forall>p\<in>set (posts db). identified_song_id p \<noteq> Some sid"
    using assms by (fastforce simp: links_resolve_def)
  then show ?thesis
    by (simp add: linked_requests_def filter_empty_conv)
qed

lemma store_inv_save_post:
  assumes inv: "store_inv db" and ok: "resolution_op db (SavePost post)"
  shows "store_inv (save_post db post)"
proof (cases "session_get_post db (post_id post)")
  case None
  with ok have link: "identified_song_id post = None" by simp
  from None have db': "save_post db post = db\<lparr>posts := posts db @ [post]\<rparr>"
    by (simp add: save_post_def post_from_model_def)
  show ?thesis
    using inv link
    by (simp add: db' store_inv_def links_resolve_def count_matches_links_def
      linked_requests_def)
next
  case (Some e)
  with ok have link: "identified_song_id post = identified_song_id e" by simp
  from Some have f: "find (\<lambda>r. post_id r = post_id post) (posts db) = Some e"
    by (simp add: session_get_post_def)
  from Some have db': "save_post db post =
      db\<lparr>posts := update_row (\<lambda>r. post_id r = post_id post) (\<lambda>r. post) (posts db)\<rparr>"
    by (simp add: save_post_def post_from_model_def)
  have e_in: "e \<in> set (posts db)" using find_Some_mem [OF f] by simp
  have sub: "set (update_row (\<lambda>r. post_id r = post_id post) (\<lambda>r. post) (posts db))
               \<subseteq> insert post (set (posts db))"
    using set_update_row [OF f] .
  have lr: "links_resolve (save_post db post)"
  proof -
    from inv have all: "links_resolve db" by (simp add: store_inv_def)
    with e_in link have "set_option (identified_song_id post) \<subseteq> song_id ` set (songs db)"
      by (simp add: links_resolve_def)
    with all sub show ?thesis
      unfolding db' links_resolve_def by auto
  qed
  have cm: "count_matches_links (save_post db post)"
    using inv linked_after_overwrite [OF f link]
    unfolding db' store_inv_def count_matches_links_def linked_requests_def by simp
  from inv have "distinct (map song_id (songs (save_post db post)))"
    unfolding db' store_inv_def by simp
  with lr cm show ?thesis by (simp add: store_inv_def)
qed


lemma map_key_update:
  "(\<And>r. key (f r) = key r) \<Longrightarrow>
   map key (map (\<lambda>r. if key r = k then f r else r) rs) = map key rs"
  by (induction rs) auto

lemma save_song_linked_new:
  assumes "session_get_song db (song_id song) = None"
      and "session_get_post db (post_id sp) = Some e"
  shows "save_song db song (Some sp) =
           \<lparr>posts = update_row (\<lambda>r. post_id r = post_id sp)
                      (\<lambda>r. r\<lparr>identified_song_id := Some (song_id song)\<rparr>) (posts db),
            songs = songs db @ [song_from_model song]\<rparr>"
  using assms by (simp add: save_song_def session_get_post_def)

lemma save_song_linked_existing:
  assumes "session_get_song db (song_id song) = Some existing"
      and "session_get_post db (post_id sp) = Some e"
  shows "save_song db song (Some sp) =
           \<lparr>posts = update_row (\<lambda>r. post_id r = post_id sp)
                      (\<lambda>r. r\<lparr>identified_song_id := Some (song_id song)\<rparr>) (posts db),
            songs = update_row (\<lambda>r. song_id r = song_id song)
                 (\<lambda>r. r\<lparr>discovery_count := discovery_count r + 1,
                        original_descriptions :=
                          merge_descriptions (original_descriptions r)
                            (original_descriptions song)\<rparr>)
                 (songs db)\<rparr>"
  using assms by (simp add: save_song_def session_get_post_def)

lemma store_inv_save_song:
  assumes inv: "store_inv db" and ok: "resolution_op db (SaveSong song source_post)"
  shows "store_inv (save_song db song source_post)"
proof -
  from ok obtain sp e where sp: "source_post = Some sp"
    and e: "session_get_post db (post_id sp) = Some e"
    and unlinked: "identified_song_id e = None"
    and one: "discovery_count song = 1"
    by (auto split: option.splits)
  let ?link = "\<lambda>r. r\<lparr>identified_song_id := Some (song_id song)\<rparr>"
  let ?ps = "update_row (\<lambda>r. post_id r = post_id sp) ?link (posts db)"
  from e have f: "find (\<lambda>r. post_id r = post_id sp) (posts db) = Some e"
    by (simp add: session_get_post_def)
  from inv have dist: "distinct (map song_id (songs db))"
    and lr: "links_resolve db" and cm: "count_matches_links db"
    by (simp_all add: store_inv_def)
  have sub: "set ?ps \<subseteq> insert (?link e) (set (posts db))"
    using set_update_row [OF f] .
  have cnt: "\<And>x. length (filter (\<lambda>p. identified_song_id p = Some x) ?ps)
        = length (filter (\<lambda>p. identified_song_id p = Some x) (posts db))
          + (if x = song_id song then 1 else 0)"
    using linked_after_link [OF f unlinked] .
  show ?thesis
  proof (cases "session_get_song db (song_id song)")
    case None
    then have fresh: "song_id song \<notin> song_id ` set (songs db)"
      by (auto simp: session_get_song_def find_None_iff)
    have db': "save_song db song source_post =
        \<lparr>posts = ?ps, songs = songs db @ [song_from_model song]\<rparr>"
      unfolding sp using save_song_linked_new [OF None e] .
    have zero: "length (filter (\<lambda>p. identified_song_id p = Some (song_id song)) (posts db)) = 0"
      using unresolved_link_count [OF lr fresh] by (simp add: linked_requests_def)
    have d: "distinct (map song_id (songs db @ [song_from_model song]))"
      using dist fresh by (simp add: song_from_model_def)
    have l: "links_resolve \<lparr>posts = ?ps, songs = songs db @ [song_from_model song]\<rparr>"
      using lr sub by (fastforce simp: links_resolve_def song_from_model_def)
    have c: "count_matches_links \<lparr>posts = ?ps, songs = songs db @ [song_from_model song]\<rparr>"
      using cm fresh one zero
      by (auto simp: count_matches_links_def linked_requests_def cnt list_all_iff
            song_from_model_def image_iff)
    from d l c show ?thesis unfolding db' by (simp add: store_inv_def)
  next
    case (Some existing)
    let ?bump = "\<lambda>r. r\<lparr>discovery_count := discovery_count r + 1,
                        original_descriptions :=
                          merge_descriptions (original_descriptions r)
                            (original_descriptions song)\<rparr>"
    let ?ss = "map (\<lambda>r. if song_id r = song_id song then ?bump r else r) (songs db)"
    have db': "save_song db song source_post = \<lparr>posts = ?ps, songs = ?ss\<rparr>"
      unfolding sp save_song_linked_existing [OF Some e]
      using update_row_distinct_key [OF dist, of "song_id song" ?bump] by simp
    have ids: "map song_id ?ss = map song_id (songs db)"
      by (rule map_key_update) simp
    have d: "distinct (map song_id ?ss)"
      unfolding ids by (rule dist)
    have ids': "song_id ` set ?ss = song_id ` set (songs db)"
      using ids by (metis list.set_map)
    have l: "links_resolve \<lparr>posts = ?ps, songs = ?ss\<rparr>"
    proof -
      from Some have "find (\<lambda>r. song_id r = song_id song) (songs db) = Some existing"
        by (simp add: session_get_song_def)
      from find_Some_mem [OF this]
      have known: "song_id song \<in> song_id ` set (songs db)"
        by (auto simp: image_iff intro: bexI [of _ existing])
      have "set_option (identified_song_id p) \<subseteq> song_id ` set (songs db)"
        if "p \<in> set ?ps" for p
      proof (cases "p = ?link e")
        case True
        with known show ?thesis by simp
      next
        case False
        with that sub have "p \<in> set (posts db)" by blast
        with lr show ?thesis by (simp add: links_resolve_def)
      qed
      then show ?thesis
        unfolding links_resolve_def Database.select_convs ids' by blast
    qed
    have c: "count_matches_links \<lparr>posts = ?ps, songs = ?ss\<rparr>"
    proof -
      have "discovery_count (if song_id r = song_id song then ?bump r else r) =
            int (length (filter (\<lambda>p. identified_song_id p =
                   Some (song_id (if song_id r = song_id song then ?bump r else r))) ?ps))"
        if "r \<in> set (songs db)" for r
      proof -
        from cm that have "discovery_count r =
            int (length (filter (\<lambda>p. identified_song_id p = Some (song_id r)) (posts db)))"
          by (simp add: count_matches_links_def linked_requests_def list_all_iff)
        then show ?thesis by (simp add: cnt)
      qed
      then show ?thesis
        unfolding count_matches_links_def linked_requests_def list_all_iff
          Database.select_convs set_map
        by blast
    qed
    from d l c show ?thesis unfolding db' by (simp add: store_inv_def)
  qed
qed

lemma store_inv_init: "store_inv init_db"
  by (simp add: store_inv_def init_db_def links_resolve_def count_matches_links_def)

lemma store_inv_apply_op:
  "store_inv db \<Longrightarrow> resolution_op db op \<Longrightarrow> store_inv (apply_op db op)"
  by (cases op) (simp_all add: store_inv_save_post store_inv_save_song del: resolution_op.simps)

lemma store_inv_run:
  "store_inv db \<Longrightarrow> resolution_run db ops \<Longrightarrow> store_inv (run_ops db ops)"
  unfolding run_ops_def
  by (induction ops arbitrary: db) (auto simp: store_inv_apply_op)

lemma songs_save_song:
  "songs (save_song db song source_post) =
     (case session_get_song db (song_id song) of
        None \<Rightarrow> songs db @ [song_from_model song]
      | Some existing \<Rightarrow>
          update_row (\<lambda>r. song_id r = song_id song)
            (\<lambda>r. r\<lparr>discovery_count := discovery_count r + 1,
                   original_descriptions :=
                     merge_descriptions (original_descriptions r) (original_descriptions song)\<rparr>)
            (songs db))"
  by (simp add: save_song_def Let_def split: option.splits)

lemma merge_descriptions_appends:
  "\<exists>added. merge_descriptions descriptions incoming = descriptions @ added
     \<and> distinct added \<and> set added = set incoming - set descriptions"
proof (induction incoming arbitrary: descriptions)
  case Nil
  then show ?case by simp
next
  case (Cons desc rest)
  show ?case
  proof (cases "desc \<in> set descriptions")
    case True
    from Cons.IH [of descriptions] obtain added
      where "merge_descriptions descriptions rest = descriptions @ added"
        and "distinct added" and "set added = set rest - set descriptions"
      by blast
    with True show ?thesis by auto
  next
    case False
    from Cons.IH [of "descriptions @ [desc]"] obtain added
      where a: "merge_descriptions (descriptions @ [desc]) rest = (descriptions @ [desc]) @ added"
        and d: "distinct added" and s: "set added = set rest - set (descriptions @ [desc])"
      by blast
    from False a have "merge_descriptions descriptions (desc # rest)
        = descriptions @ (desc # added)" by simp
    moreover from d s have "distinct (desc # added)" by auto
    moreover from False s have "set (desc # added) = set (desc # rest) - set descriptions"
      by auto
    ultimately show ?thesis by blast
  qed
qed

lemma filter_update_row_same:
  "(\<And>r. P r \<Longrightarrow> P (f r)) \<Longrightarrow>
   filter P (update_row P f rs) = (case filter P rs of [] \<Rightarrow> [] | r # more_rows \<Rightarrow> f r # more_rows)"
  by (induction rs) (auto split: list.splits)


section \<open>Lemmas about the scraper\<close>

lemmas str_defs = lower_def lower_char_def ascii_uppercase_def ascii_lowercase_def
  ascii_digits_def isalnum_def isdigit_def isspace_def strip_def split_def

lemmas re_defs = ichar_def lit_def seqs_def one_or_more_def word_char_def word_dash_def
  word_dot_dash_def https_def www_def

lemmas scraper_example_defs = tomt_song_def tomt_movie_def untagged_thread_def
  solved_and_open_def example_reddit_def or_empty_def

lemma status_submission_to_post [simp]:
  "status (submission_to_post list_of_set now s) = determine_status s"
  by (simp add: submission_to_post_def Let_def)

lemma post_id_submission_to_post [simp]:
  "post_id (submission_to_post list_of_set now s) = submission_id s"
  by (simp add: submission_to_post_def Let_def)

lemma map_enumerate_ignore:
  "(\<And>i x. f (g i x) = h x) \<Longrightarrow> map (\<lambda>p. f (case p of (i, x) \<Rightarrow> g i x)) (enumerate n xs) = map h xs"
  by (induction xs arbitrary: n) auto

lemma status_yield_posts:
  "map status (yield_posts list_of_set clock subs) = map determine_status (filter is_music_post subs)"
  unfolding yield_posts_def map_map comp_def
  by (rule map_enumerate_ignore) simp



lemma two_links_found:
  "concat (map (\<lambda>pattern. findall pattern ''hummed it https://youtu.be/a https://voca.ro/b'')
      AUDIO_LINK_PATTERNS) = [''https://youtu.be/a'', ''https://voca.ro/b'']"
  by code_simp


lemma two_links_text:
  "title two_links @ '' '' @ or_empty (selftext two_links)
     = ''hummed it https://youtu.be/a https://voca.ro/b''"
  by (simp add: two_links_def or_empty_def)

lemma set_order_remdups: "set_order remdups"
  by (simp add: set_order_def)

lemma set_order_rev_remdups: "set_order (\<lambda>xs. rev (remdups xs))"
  by (simp add: set_order_def)




section \<open>Lemmas about the extractor\<close>






lemma extract_solution_no_comments:
  "extract_solution env now post [] = (Inr None, [])"
  by (simp add: extract_solution_def)

lemma parse_solution_decode_failure:
  "strip_code_fence response_text = Inr stripped \<Longrightarrow> json_loads env (strip stripped) = None
     \<Longrightarrow> parse_solution env now post response_text = Inr None"
  by (simp add: parse_solution_def)

lemma parse_solution_missing_key:
  "strip_code_fence response_text = Inr stripped
     \<Longrightarrow> json_loads env (strip stripped) = Some (JObj result)
     \<Longrightarrow> map_of result ''artist'' = None \<or> map_of result ''song_title'' = None
     \<Longrightarrow> parse_solution env now post response_text = Inr None"
  by (auto simp: parse_solution_def split: option.splits)











section \<open>Claims about the catalog store\<close>

lemmas example_defs = thread_t1_def blue_monday_def init_db_def run_ops_def save_post_def
  save_song_def session_get_post_def session_get_song_def post_from_model_def
  song_from_model_def linked_requests_def count_matches_links_def get_post_def

text \<open>
  Claim C1, as stated: at every state reachable by store operations, each song's
  \<open>discovery_count\<close> equals the number of requests linked to it. This fails:
  \<open>discovery_count\<close> is a stored column that \<open>save_song\<close> increments whenever
  the song id exists, and \<open>save_post\<close> overwrites \<open>identified_song_id\<close>.
  Saving thread t1, resolving it to a song, saving t1 again (a second scrape
  carries no link) and resolving it again leaves a count of 2 and one link.
\<close>

theorem discovery_count_drifts_counterexample:
  "map discovery_count (songs (run_ops init_db
      [SavePost thread_t1, SaveSong blue_monday (Some thread_t1),
       SavePost thread_t1, SaveSong blue_monday (Some thread_t1)])) = [2]
   \<and> linked_requests (run_ops init_db
      [SavePost thread_t1, SaveSong blue_monday (Some thread_t1),
       SavePost thread_t1, SaveSong blue_monday (Some thread_t1)]) ''new_order_blue_monday'' = 1
   \<and> \<not> count_matches_links (run_ops init_db
      [SavePost thread_t1, SaveSong blue_monday (Some thread_t1),
       SavePost thread_t1, SaveSong blue_monday (Some thread_t1)])"
  by (simp add: example_defs)

text \<open>
  Claim C1, amended: at every state reached from the empty store by operations
  of the resolution pass's form (\<open>resolution_run\<close>: each \<open>save_post\<close> leaves the
  stored link unchanged, each \<open>save_song\<close> has an incoming count of 1 and a
  source post that is stored and not linked yet), each song's
  \<open>discovery_count\<close> equals the number of requests whose \<open>identified_song_id\<close>
  is that song's id.
\<close>

theorem discovery_count_matches_links:
  "resolution_run init_db ops \<Longrightarrow> count_matches_links (run_ops init_db ops)"
  using store_inv_run [OF store_inv_init, of ops] by (simp add: store_inv_def)

text \<open>Witness for C1: thread t1 is saved and then resolved to the song.\<close>

theorem discovery_count_matches_links_witness:
  "resolution_run init_db [SavePost thread_t1, SaveSong blue_monday (Some thread_t1)]
   \<and> count_matches_links
        (run_ops init_db [SavePost thread_t1, SaveSong blue_monday (Some thread_t1)])
   \<and> map discovery_count (songs
        (run_ops init_db [SavePost thread_t1, SaveSong blue_monday (Some thread_t1)])) = [1]"
proof -
  have h: "resolution_run init_db [SavePost thread_t1, SaveSong blue_monday (Some thread_t1)]"
    by (simp add: example_defs)
  have v: "map discovery_count (songs
        (run_ops init_db [SavePost thread_t1, SaveSong blue_monday (Some thread_t1)])) = [1]"
    by (simp add: example_defs)
  from h v discovery_count_matches_links [OF h] show ?thesis by simp
qed

text \<open>
  Claim C4, as stated: saving a post that is already stored never changes its
  \<open>scraped_at\<close>. This fails: the update loop of \<open>save_post\<close> assigns every
  column, \<open>scraped_at\<close> included. Thread t1 is stored with scrape time 2000;
  saving it again with scrape time 5000 stores 5000.
\<close>

theorem save_post_scraped_at_counterexample:
  "map_option scraped_at (get_post (save_post init_db thread_t1) ''t1'') = Some 2000
   \<and> map_option scraped_at
        (get_post (save_post (save_post init_db thread_t1) (thread_t1\<lparr>scraped_at := 5000\<rparr>))
           ''t1'') = Some 5000"
  by (simp add: example_defs)

text \<open>
  Claim C4, amended: for every request already in the store, \<open>save_post\<close>
  overwrites every stored field with the incoming post's value, the mutable
  fields and \<open>scraped_at\<close> alike: the stored record afterwards is the incoming
  post, so its \<open>scraped_at\<close> is the incoming one. No other row changes and no
  row is added.
\<close>

theorem save_post_overwrites:
  assumes "get_post db (post_id post) = Some existing"
  shows "get_post (save_post db post) (post_id post) = Some post
         \<and> (\<forall>key. key \<noteq> post_id post \<longrightarrow> get_post (save_post db post) key = get_post db key)
         \<and> length (posts (save_post db post)) = length (posts db)"
proof -
  from assms have db': "save_post db post =
      db\<lparr>posts := update_row (\<lambda>r. post_id r = post_id post) (\<lambda>r. post) (posts db)\<rparr>"
    by (simp add: save_post_def post_from_model_def get_post_def)
  have a: "get_post (save_post db post) (post_id post) = Some post"
    unfolding db' get_post_def session_get_post_def
    using assms find_update_row_same [of "\<lambda>r. post_id r = post_id post" "\<lambda>r. post" "posts db"]
    by (simp add: get_post_def session_get_post_def)
  have b: "get_post (save_post db post) key = get_post db key" if "key \<noteq> post_id post" for key
    unfolding db' get_post_def session_get_post_def
    using that find_update_row_other [of "\<lambda>r. post_id r = post_id post" "\<lambda>r. post_id r = key"
        "\<lambda>r. post" "posts db"]
    by simp
  have c: "length (posts (save_post db post)) = length (posts db)"
    unfolding db' by simp
  from a b c show ?thesis by blast
qed

text \<open>Witness for C4: thread t1 is stored and saved again with a later scrape time.\<close>

theorem save_post_overwrites_witness:
  "get_post (save_post init_db thread_t1) (post_id (thread_t1\<lparr>scraped_at := 5000\<rparr>)) = Some thread_t1
   \<and> get_post (save_post (save_post init_db thread_t1) (thread_t1\<lparr>scraped_at := 5000\<rparr>)) ''t1''
       = Some (thread_t1\<lparr>scraped_at := 5000\<rparr>)
   \<and> get_post (save_post (save_post init_db thread_t1) (thread_t1\<lparr>scraped_at := 5000\<rparr>)) ''t2''
       = None"
proof -
  have h: "get_post (save_post init_db thread_t1) (post_id (thread_t1\<lparr>scraped_at := 5000\<rparr>))
             = Some thread_t1"
    by (simp add: example_defs)
  have i: "post_id (thread_t1\<lparr>scraped_at := 5000\<rparr>) = ''t1''"
    by (simp add: thread_t1_def)
  have n: "get_post (save_post init_db thread_t1) ''t2'' = None"
    by (simp add: example_defs)
  from save_post_overwrites [OF h] h i n show ?thesis by simp
qed

text \<open>
  Claim C2, as stated: \<open>save_song\<close> inserts a song whose id is not stored
  with \<open>discovery_count = 1\<close>. This fails: \<open>SongRecord.from_model\<close> copies the
  count of the incoming song, whatever it is. On the empty store, a song that
  arrives with a count of 7 is stored with 7.
\<close>

theorem save_song_insert_count_counterexample:
  "session_get_song init_db (song_id (blue_monday\<lparr>discovery_count := 7\<rparr>)) = None
   \<and> map discovery_count (songs (save_song init_db (blue_monday\<lparr>discovery_count := 7\<rparr>) None))
       = [7]"
  by (simp add: example_defs)

text \<open>
  Claim C2, amended: \<open>save_song\<close> is a merge. If no song with the incoming id
  is stored, the incoming song is inserted with its own \<open>discovery_count\<close>
  (1 by the default of the model, as for every song that \<open>extract_solution\<close>
  builds). If one is stored, its \<open>discovery_count\<close> grows by exactly 1 and
  every other column but \<open>original_descriptions\<close> keeps its value, title,
  artist, album and year among them. The merged descriptions are the stored
  ones followed by the incoming strings that were not stored, each once.
  Hence two songs with one id, the first arriving with a count of 1 while the
  id is not stored, leave exactly one row of that id, with a count of 2.
\<close>

theorem save_song_merge:
  "(session_get_song db (song_id song) = None \<longrightarrow>
      session_get_song (save_song db song source_post) (song_id song)
        = Some (song_from_model song)
      \<and> discovery_count (song_from_model song) = discovery_count song
      \<and> length (songs (save_song db song source_post)) = Suc (length (songs db)))
   \<and> (session_get_song db (song_id song) = Some existing \<longrightarrow>
      session_get_song (save_song db song source_post) (song_id song)
        = Some (existing\<lparr>discovery_count := discovery_count existing + 1,
             original_descriptions :=
               merge_descriptions (original_descriptions existing) (original_descriptions song)\<rparr>)
      \<and> length (songs (save_song db song source_post)) = length (songs db))
   \<and> take (length descriptions) (merge_descriptions descriptions incoming) = descriptions
   \<and> distinct (drop (length descriptions) (merge_descriptions descriptions incoming))
   \<and> set (drop (length descriptions) (merge_descriptions descriptions incoming))
        = set incoming - set descriptions
   \<and> (session_get_song db (song_id song) = None \<and> song_id second = song_id song
        \<and> discovery_count song = 1 \<longrightarrow>
      map discovery_count
        (filter (\<lambda>r. song_id r = song_id song)
           (songs (save_song (save_song db song source_post) second second_post))) = [2])"
proof -
  let ?bump = "\<lambda>incoming r. r\<lparr>discovery_count := discovery_count r + 1,
                   original_descriptions :=
                     merge_descriptions (original_descriptions r) (original_descriptions incoming)\<rparr>"
  have new: "session_get_song (save_song db song source_post) (song_id song)
        = Some (song_from_model song)
      \<and> discovery_count (song_from_model song) = discovery_count song
      \<and> length (songs (save_song db song source_post)) = Suc (length (songs db))"
    if "session_get_song db (song_id song) = None"
    using that
    by (simp add: session_get_song_def songs_save_song find_app song_from_model_def)
  have old: "session_get_song (save_song db song source_post) (song_id song)
        = Some (?bump song existing)
      \<and> length (songs (save_song db song source_post)) = length (songs db)"
    if "session_get_song db (song_id song) = Some existing"
    using that find_update_row_same [of "\<lambda>r. song_id r = song_id song" "?bump song" "songs db"]
    by (simp add: session_get_song_def songs_save_song)
  obtain added where m: "merge_descriptions descriptions incoming = descriptions @ added"
      "distinct added" "set added = set incoming - set descriptions"
    using merge_descriptions_appends by blast
  have twice: "map discovery_count
        (filter (\<lambda>r. song_id r = song_id song)
           (songs (save_song (save_song db song source_post) second second_post))) = [2]"
    if n: "session_get_song db (song_id song) = None" and i: "song_id second = song_id song"
      and c: "discovery_count song = 1"
  proof -
    from n have none: "filter (\<lambda>r. song_id r = song_id song) (songs db) = []"
      by (simp add: session_get_song_def find_None_filter)
    have first: "songs (save_song db song source_post) = songs db @ [song_from_model song]"
      using n by (simp add: songs_save_song)
    have got: "session_get_song (save_song db song source_post) (song_id second)
        = Some (song_from_model song)"
      using new [OF n] i by simp
    have "songs (save_song (save_song db song source_post) second second_post)
        = update_row (\<lambda>r. song_id r = song_id song) (?bump second)
            (songs db @ [song_from_model song])"
      unfolding songs_save_song [of "save_song db song source_post" second second_post] got
      by (simp add: i first)
    then show ?thesis
      using filter_update_row_same [of "\<lambda>r. song_id r = song_id song" "?bump second"
          "songs db @ [song_from_model song]"] none c
      by (simp add: song_from_model_def)
  qed
  from new old m twice show ?thesis by simp
qed

text \<open>
  Witness for C2: the song of the scenario is saved into the empty store, and
  saved again with another spelling of the title and one new description.
\<close>

theorem save_song_merge_witness:
  "session_get_song init_db (song_id blue_monday) = None
   \<and> session_get_song (save_song init_db blue_monday None) (song_id blue_monday)
       = Some (blue_monday\<lparr>source_post_ids := []\<rparr>)
   \<and> session_get_song
        (save_song (save_song init_db blue_monday None)
           (blue_monday\<lparr>song_title := ''BLUE MONDAY'',
              original_descriptions := [''an 80s synth song'', ''that drum machine intro'']\<rparr>)
           None)
        (song_id blue_monday)
       = Some (blue_monday\<lparr>source_post_ids := [], discovery_count := 2,
            original_descriptions := [''an 80s synth song'', ''that drum machine intro'']\<rparr>)
   \<and> map discovery_count
        (filter (\<lambda>r. song_id r = song_id blue_monday)
           (songs (save_song (save_song init_db blue_monday None) blue_monday None))) = [2]"
proof -
  let ?second = "blue_monday\<lparr>song_title := ''BLUE MONDAY'',
              original_descriptions := [''an 80s synth song'', ''that drum machine intro'']\<rparr>"
  have n: "session_get_song init_db (song_id blue_monday) = None"
    by (simp add: example_defs)
  have o: "session_get_song (save_song init_db blue_monday None) (song_id ?second)
      = Some (blue_monday\<lparr>source_post_ids := []\<rparr>)"
    by (simp add: example_defs)
  have i: "song_id ?second = song_id blue_monday" by simp
  have c: "discovery_count blue_monday = 1" by (simp add: blue_monday_def)
  have f: "song_from_model blue_monday = blue_monday\<lparr>source_post_ids := []\<rparr>"
    by (simp add: song_from_model_def)
  have v: "(blue_monday\<lparr>source_post_ids := []\<rparr>)
       \<lparr>discovery_count := discovery_count (blue_monday\<lparr>source_post_ids := []\<rparr>) + 1,
        original_descriptions :=
          merge_descriptions (original_descriptions (blue_monday\<lparr>source_post_ids := []\<rparr>))
            (original_descriptions ?second)\<rparr>
      = blue_monday\<lparr>source_post_ids := [], discovery_count := 2,
            original_descriptions := [''an 80s synth song'', ''that drum machine intro'']\<rparr>"
    by (simp add: blue_monday_def)
  from save_song_merge [of init_db blue_monday None blue_monday "[]" "[]" blue_monday None] n c
  have a: "session_get_song (save_song init_db blue_monday None) (song_id blue_monday)
       = Some (song_from_model blue_monday)
     \<and> map discovery_count
        (filter (\<lambda>r. song_id r = song_id blue_monday)
           (songs (save_song (save_song init_db blue_monday None) blue_monday None))) = [2]"
    by simp
  from save_song_merge [of "save_song init_db blue_monday None" ?second None
      "blue_monday\<lparr>source_post_ids := []\<rparr>" "[]" "[]" ?second None] o
  have b: "session_get_song (save_song (save_song init_db blue_monday None) ?second None)
        (song_id ?second)
      = Some (blue_monday\<lparr>source_post_ids := [], discovery_count := 2,
            original_descriptions := [''an 80s synth song'', ''that drum machine intro'']\<rparr>)"
    unfolding v [symmetric] by simp
  from n a b show ?thesis unfolding f i by simp
qed

section \<open>Claims about the classifier\<close>

text \<open>
  Claim C5, as stated: in every mode the status of a yielded request follows
  from the flair alone, by the precedence of \<open>_determine_status\<close>. This fails
  in the solved mode: \<open>scrape_solved\<close> assigns \<open>SOLVED\<close> to every post it
  yields. A thread without a flair that the search returns is yielded as
  \<open>SOLVED\<close>, where the precedence gives \<open>UNKNOWN\<close>.
\<close>

theorem solved_mode_status_counterexample:
  "map status (scrape_solved remdups (\<lambda>i. 0) example_reddit [''WhatsThisSong''] 100) = [SOLVED]
   \<and> map determine_status
        (filter is_music_post
           (listing_search example_reddit ''WhatsThisSong'' ''flair:solved OR flair:answered'' 100))
       = [UNKNOWN]"
proof -
  have a: "listing_search example_reddit ''WhatsThisSong'' ''flair:solved OR flair:answered'' 100
             = [untagged_thread]"
    by (simp add: example_reddit_def)
  have b: "is_music_post untagged_thread"
    by (simp add: is_music_post_def untagged_thread_def str_defs Let_def)
  have c: "determine_status untagged_thread = UNKNOWN"
    by (simp add: determine_status_def untagged_thread_def or_empty_def str_defs)
  have d: "map status (scrape_solved remdups (\<lambda>i. 0) example_reddit [''WhatsThisSong''] 100)
             = [SOLVED]"
    unfolding scrape_solved_def yield_posts_def using a b
    by (simp add: enumerate_eq_zip)
  from a b c d show ?thesis by simp
qed

text \<open>
  Claim C5, amended: in the modes new and hot, the status of every yielded
  request is \<open>determine_status\<close> of its thread, which reads the lower-cased
  flair only, the first matching rule winning: \<open>solved\<close> or \<open>answered\<close>
  gives \<open>SOLVED\<close>; otherwise \<open>open\<close> or \<open>searching\<close> gives \<open>OPEN\<close>;
  otherwise \<open>unsolved\<close> or \<open>closed\<close> gives \<open>UNSOLVED\<close>; otherwise
  \<open>UNKNOWN\<close>. In the solved mode every yielded request has the status
  \<open>SOLVED\<close>, whatever its flair.
\<close>

theorem status_by_mode:
  assumes "tag = lower (or_empty (link_flair_text s))"
  shows "map status (scrape_new list_of_set clock reddit subreddits limit)
           = map determine_status (filter is_music_post
               (concat (map (\<lambda>name. listing_new reddit name limit) subreddits)))
         \<and> map status (scrape_hot list_of_set clock reddit subreddits limit)
           = map determine_status (filter is_music_post
               (concat (map (\<lambda>name. listing_hot reddit name limit) subreddits)))
         \<and> list_all (\<lambda>post. status post = SOLVED)
               (scrape_solved list_of_set clock reddit subreddits limit)
         \<and> (contains ''solved'' tag \<or> contains ''answered'' tag
               \<longrightarrow> determine_status s = SOLVED)
         \<and> (\<not> (contains ''solved'' tag \<or> contains ''answered'' tag)
               \<and> (contains ''open'' tag \<or> contains ''searching'' tag)
               \<longrightarrow> determine_status s = OPEN)
         \<and> (\<not> (contains ''solved'' tag \<or> contains ''answered'' tag)
               \<and> \<not> (contains ''open'' tag \<or> contains ''searching'' tag)
               \<and> (contains ''unsolved'' tag \<or> contains ''closed'' tag)
               \<longrightarrow> determine_status s = UNSOLVED)
         \<and> (\<not> (contains ''solved'' tag \<or> contains ''answered'' tag)
               \<and> \<not> (contains ''open'' tag \<or> contains ''searching'' tag)
               \<and> \<not> (contains ''unsolved'' tag \<or> contains ''closed'' tag)
               \<longrightarrow> determine_status s = UNKNOWN)"
proof -
  have n: "map status (scrape_new list_of_set clock reddit subreddits limit)
           = map determine_status (filter is_music_post
               (concat (map (\<lambda>name. listing_new reddit name limit) subreddits)))"
    unfolding scrape_new_def by (rule status_yield_posts)
  have h: "map status (scrape_hot list_of_set clock reddit subreddits limit)
           = map determine_status (filter is_music_post
               (concat (map (\<lambda>name. listing_hot reddit name limit) subreddits)))"
    unfolding scrape_hot_def by (rule status_yield_posts)
  have v: "list_all (\<lambda>post. status post = SOLVED)
               (scrape_solved list_of_set clock reddit subreddits limit)"
    by (simp add: scrape_solved_def list_all_iff)
  have p: "determine_status s =
      (if contains ''solved'' tag \<or> contains ''answered'' tag then SOLVED
       else if contains ''open'' tag \<or> contains ''searching'' tag then OPEN
       else if contains ''unsolved'' tag \<or> contains ''closed'' tag then UNSOLVED
       else UNKNOWN)"
    unfolding assms determine_status_def Let_def ..
  from n h v show ?thesis unfolding p by simp
qed

text \<open>
  Witness for C5: the new listing of the general group yields the song thread,
  whose flair has no status word; a flair with both \<open>solved\<close> and \<open>open\<close>
  gives \<open>SOLVED\<close>.
\<close>

theorem status_by_mode_witness:
  "map status (scrape_new remdups (\<lambda>i. 0) example_reddit [''tipofmytongue''] 100) = [UNKNOWN]
   \<and> determine_status solved_and_open = SOLVED
   \<and> contains ''solved'' (lower (or_empty (link_flair_text solved_and_open)))
   \<and> contains ''open'' (lower (or_empty (link_flair_text solved_and_open)))"
proof -
  have f: "lower (or_empty (link_flair_text solved_and_open)) = ''solved (was open)''"
    by (simp add: scraper_example_defs str_defs)
  have c: "contains ''solved'' ''solved (was open)'' \<and> contains ''open'' ''solved (was open)''"
    by simp
  have m: "filter is_music_post
             (concat (map (\<lambda>name. listing_new example_reddit name 100) [''tipofmytongue'']))
           = [tomt_song]"
    by (simp add: is_music_post_def scraper_example_defs str_defs Let_def
        MUSIC_FLAIR_PATTERNS_def re_defs)
  have d: "determine_status tomt_song = UNKNOWN"
    by (simp add: determine_status_def scraper_example_defs str_defs)
  from status_by_mode [OF f [symmetric], of remdups "\<lambda>i. 0" example_reddit
      "[''tipofmytongue'']" 100] c m d f
  show ?thesis by simp
qed

text \<open>
  Claim C8, as stated: two classifications of one raw thread agree on every
  field but \<open>scraped_at\<close>, the list of audio links included. This fails for
  the order of the links: \<open>list(set(links))\<close> lists them in the iteration
  order of a set, which differs between interpreters. Under two orders that
  both list every link once, a thread with two links gets them in two orders.
\<close>

theorem classify_twice_order_counterexample:
  "set_order remdups \<and> set_order (\<lambda>xs. rev (remdups xs))
   \<and> audio_links (submission_to_post remdups 100 two_links)
       = [''https://youtu.be/a'', ''https://voca.ro/b'']
   \<and> audio_links (submission_to_post (\<lambda>xs. rev (remdups xs)) 200 two_links)
       = [''https://voca.ro/b'', ''https://youtu.be/a'']"
proof -
  have a: "audio_links (submission_to_post list_of_set now two_links)
      = list_of_set [''https://youtu.be/a'', ''https://voca.ro/b'']" for list_of_set now
    unfolding submission_to_post_def Let_def extract_audio_links_def two_links_text
      two_links_found
    by simp
  show ?thesis
    unfolding a using set_order_remdups set_order_rev_remdups by simp
qed

text \<open>
  Claim C8, amended: two classifications of one raw thread under the same set
  iteration order (as within one interpreter) agree on every field but
  \<open>scraped_at\<close>. Under any two set iteration orders they agree on every field
  but \<open>scraped_at\<close> and \<open>audio_links\<close>, and their \<open>audio_links\<close> hold the
  same links, each once.
\<close>

theorem classify_twice:
  assumes "set_order order1" and "set_order order2"
  shows "(submission_to_post order1 now1 s)\<lparr>scraped_at := t\<rparr>
           = (submission_to_post order1 now2 s)\<lparr>scraped_at := t\<rparr>
         \<and> (submission_to_post order1 now1 s)\<lparr>scraped_at := t, audio_links := links\<rparr>
           = (submission_to_post order2 now2 s)\<lparr>scraped_at := t, audio_links := links\<rparr>
         \<and> set (audio_links (submission_to_post order1 now1 s))
           = set (audio_links (submission_to_post order2 now2 s))
         \<and> distinct (audio_links (submission_to_post order1 now1 s))
         \<and> distinct (audio_links (submission_to_post order2 now2 s))"
  using assms
  by (simp add: submission_to_post_def Let_def extract_audio_links_def set_order_def)

text \<open>
  Witness for C8: the thread with two links, classified at the times 100 and
  200.
\<close>

theorem classify_twice_witness:
  "set_order remdups \<and> set_order (\<lambda>xs. rev (remdups xs))
   \<and> (submission_to_post remdups 100 two_links)\<lparr>scraped_at := 0\<rparr>
       = (submission_to_post remdups 200 two_links)\<lparr>scraped_at := 0\<rparr>
   \<and> set (audio_links (submission_to_post remdups 100 two_links))
       = set (audio_links (submission_to_post (\<lambda>xs. rev (remdups xs)) 200 two_links))
   \<and> scraped_at (submission_to_post remdups 100 two_links) = 100
   \<and> scraped_at (submission_to_post remdups 200 two_links) = 200"
proof -
  have s: "scraped_at (submission_to_post remdups 100 two_links) = 100
      \<and> scraped_at (submission_to_post remdups 200 two_links) = 200"
    by (simp add: submission_to_post_def Let_def)
  from classify_twice [OF set_order_remdups set_order_rev_remdups, where ?now1.0 = 100
      and s = two_links and t = 0 and ?now2.0 = 200]
    set_order_remdups set_order_rev_remdups s
  show ?thesis by simp
qed



text \<open>
  Claim C10: a thread whose lower-cased subreddit name is none of
  \<open>tipofmytongue\<close>, \<open>whatsthissong\<close> and \<open>namethatsong\<close> passes the
  relevance check, whatever its flair and title.
\<close>

theorem other_subreddit_accepted:
  assumes "lower (display_name s) \<notin> {''tipofmytongue'', ''whatsthissong'', ''namethatsong''}"
  shows "is_music_post (s\<lparr>link_flair_text := any_flair, title := any_title\<rparr>)"
  using assms by (simp add: is_music_post_def Let_def)

text \<open>
  Witness for C10: a thread of a subreddit \<open>Movies\<close> with the flair
  \<open>[TOMT][Movie]\<close>.
\<close>

theorem other_subreddit_accepted_witness:
  "lower (display_name (tomt_movie\<lparr>display_name := ''Movies''\<rparr>))
       \<notin> {''tipofmytongue'', ''whatsthissong'', ''namethatsong''}
   \<and> is_music_post (tomt_movie\<lparr>display_name := ''Movies'',
         link_flair_text := Some ''[TOMT][Movie]'', title := ''film about a heist''\<rparr>)"
proof -
  have h: "lower (display_name (tomt_movie\<lparr>display_name := ''Movies''\<rparr>))
       \<notin> {''tipofmytongue'', ''whatsthissong'', ''namethatsong''}"
    by (simp add: tomt_movie_def tomt_song_def str_defs)
  from other_subreddit_accepted [OF h, where any_flair = "Some ''[TOMT][Movie]''"
      and any_title = "''film about a heist''"] h
  show ?thesis by simp
qed

section \<open>Claims about the extractor\<close>



text \<open>
  Claim C6 says that \<open>extract_solution\<close> returns a song or \<open>None\<close> and
  never raises. On a response that decodes to JSON that is no object, here
  the text \<open>[]\<close>, the call \<open>result.get("found")\<close> raises
  \<open>AttributeError\<close>, which the \<open>except\<close> clause does not catch.
\<close>

theorem extract_solution_raises_on_json_array:
  "fst (extract_solution array_reply 3000 thread_t1 [comment_c1]) = Inl AttributeError"
  by (simp add: extract_solution_def parse_solution_def strip_code_fence_def array_reply_def
      example_loads_def comment_c1_def str_defs Let_def)



end
